theory Spec2Isabelle
  imports Main
begin

section \<open>Values\<close>

text \<open>
  Every value the handlers of \<^verbatim>\<open>boomi-mcp-server.js\<close> touch is JSON data: the parsed
  query string, the parsed request body, the bodies axios hands back, and the objects
  given to \<^verbatim>\<open>res.json\<close>. A number is held as its canonical rendering
  (\<^verbatim>\<open>Number.prototype.toString\<close>), which is all this program observes of a number:
  its truthiness (falsy exactly for \<^verbatim>\<open>0\<close>, \<^verbatim>\<open>-0\<close>, both rendered \<^verbatim>\<open>0\<close>, and
  \<^verbatim>\<open>NaN\<close>) and its text inside a template literal. An object is the list of its own
  properties. The JavaScript value \<^verbatim>\<open>undefined\<close> never occurs inside JSON data; it
  only arises from reading a property that is not there, so a JavaScript value is a
  \<open>json option\<close> with \<open>None\<close> for \<^verbatim>\<open>undefined\<close>.
\<close>

datatype json =
    JNull
  | JBool bool
  | JNum string
  | JStr string
  | JArr "json list"
  | JObj "(string \<times> json) list"

type_synonym jsval = "json option"

fun truthy :: "json \<Rightarrow> bool" where
  "truthy JNull = False"
| "truthy (JBool b) = b"
| "truthy (JNum n) = (n \<noteq> ''0'' \<and> n \<noteq> ''NaN'')"
| "truthy (JStr s) = (s \<noteq> [])"
| "truthy (JArr xs) = True"
| "truthy (JObj kvs) = True"

definition js_not :: "jsval \<Rightarrow> bool" where
  \<comment> \<open>\<^verbatim>\<open>!v\<close>\<close>
  "js_not v = (case v of None \<Rightarrow> True | Some j \<Rightarrow> \<not> truthy j)"

definition js_or :: "jsval \<Rightarrow> jsval \<Rightarrow> jsval" where
  \<comment> \<open>\<^verbatim>\<open>a || b\<close>\<close>
  "js_or a b = (if js_not a then b else a)"

definition js_or_else :: "jsval \<Rightarrow> json \<Rightarrow> json" where
  \<comment> \<open>\<^verbatim>\<open>a || d\<close> where \<open>d\<close> is not \<^verbatim>\<open>undefined\<close>\<close>
  "js_or_else a d = (case a of None \<Rightarrow> d | Some j \<Rightarrow> if truthy j then j else d)"

section \<open>Errors\<close>

text \<open>
  What a \<^verbatim>\<open>catch (error)\<close> block reads of the error: \<^verbatim>\<open>error.response\<close>, present
  when axios rejected because of an upstream HTTP response, and \<^verbatim>\<open>error.message\<close>.
  A \<^verbatim>\<open>TypeError\<close> raised by the handler itself has no \<^verbatim>\<open>response\<close>.
\<close>

record upstream_response =
  status :: nat
  data :: json

record js_error =
  response :: "upstream_response option"
  message :: string

definition TypeError :: "string \<Rightarrow> js_error" where
  "TypeError m = \<lparr>response = None, message = m\<rparr>"

fun prop_of :: "json \<Rightarrow> string \<Rightarrow> js_error + jsval" where
  \<comment> \<open>\<^verbatim>\<open>v.k\<close>, for a key \<open>k\<close> that no prototype defines (every key read in this program)\<close>
  "prop_of JNull k = Inl (TypeError (''Cannot read properties of null (reading '' @ [CHR 0x27] @ k @ [CHR 0x27] @ '')''))"
| "prop_of (JObj kvs) k = Inr (map_of kvs k)"
| "prop_of v k = Inr None"

section \<open>Template literals\<close>

text \<open>
  The conversion to a string that a template literal applies to a value. An array is
  joined with commas, \<^verbatim>\<open>null\<close> entries giving the empty string. An object is
  converted by its \<^verbatim>\<open>toString\<close>: the inherited one gives \<^verbatim>\<open>[object Object]\<close>, but
  an own property \<^verbatim>\<open>toString\<close> of JSON data is not callable, the inherited
  \<^verbatim>\<open>valueOf\<close> returns the object itself, and the conversion throws a
  \<^verbatim>\<open>TypeError\<close>.
\<close>

fun join_comma :: "string list \<Rightarrow> string" where
  "join_comma [] = []"
| "join_comma [s] = s"
| "join_comma (s # t # r) = s @ '','' @ join_comma (t # r)"

fun collect :: "(js_error + 'a) list \<Rightarrow> js_error + 'a list" where
  \<comment> \<open>the results in order, or the first error thrown\<close>
  "collect [] = Inr []"
| "collect (Inl e # rs) = Inl e"
| "collect (Inr v # rs) = (case collect rs of Inl e \<Rightarrow> Inl e | Inr vs \<Rightarrow> Inr (v # vs))"

fun to_string :: "json \<Rightarrow> js_error + string" where
  "to_string JNull = Inr ''null''"
| "to_string (JBool b) = Inr (if b then ''true'' else ''false'')"
| "to_string (JNum n) = Inr n"
| "to_string (JStr s) = Inr s"
| "to_string (JArr xs) =
     (case collect (map (\<lambda>x. if x = JNull then Inr [] else to_string x) xs) of
        Inl e \<Rightarrow> Inl e
      | Inr ss \<Rightarrow> Inr (join_comma ss))"
| "to_string (JObj kvs) =
     (if ''toString'' \<in> fst ` set kvs
      then Inl (TypeError ''Cannot convert object to primitive value'')
      else Inr ''[object Object]'')"

definition template :: "jsval \<Rightarrow> js_error + string" where
  \<comment> \<open>\<^verbatim>\<open>`${v}`\<close>\<close>
  "template v = (case v of None \<Rightarrow> Inr ''undefined'' | Some j \<Rightarrow> to_string j)"

section \<open>The upstream service\<close>

datatype http_verb = GET | POST

record headers =
  Authorization :: string
  Accept :: string
  Content_Type :: string

record up_request =
  verb :: http_verb
  url :: string
  payload :: "json option"
  hdrs :: headers

text \<open>
  The environment: axios together with the upstream service. The \<open>n\<close>-th call a handler
  issues is answered with the time the promise takes to settle and with how it settles:
  \<open>Inr d\<close> when it fulfils with \<^verbatim>\<open>response.data = d\<close>, \<open>Inl e\<close> when it rejects
  with \<open>e\<close>.
\<close>

type_synonym upstream = "nat \<Rightarrow> up_request \<Rightarrow> nat \<times> (js_error + json)"

section \<open>Helpers of the source\<close>

definition b64_alphabet :: string where
  "b64_alphabet = ''ABCDEFGHIJKLMNOPQRSTUVWXYZabcdefghijklmnopqrstuvwxyz0123456789+/''"

fun base64_bytes :: "nat list \<Rightarrow> string" where
  "base64_bytes [] = []"
| "base64_bytes [a] =
     [b64_alphabet ! (a div 4), b64_alphabet ! ((a mod 4) * 16), CHR ''='', CHR ''='']"
| "base64_bytes [a, b] =
     [b64_alphabet ! (a div 4), b64_alphabet ! ((a mod 4) * 16 + b div 16),
      b64_alphabet ! ((b mod 16) * 4), CHR ''='']"
| "base64_bytes (a # b # c # r) =
     [b64_alphabet ! (a div 4), b64_alphabet ! ((a mod 4) * 16 + b div 16),
      b64_alphabet ! ((b mod 16) * 4 + c div 64), b64_alphabet ! (c mod 64)] @ base64_bytes r"

definition base64 :: "string \<Rightarrow> string" where
  \<comment> \<open>\<^verbatim>\<open>Buffer.from(s).toString('base64')\<close>, a string being its UTF-8 bytes\<close>
  "base64 s = base64_bytes (map of_char s)"

definition getBoomiAuthHeaders :: "jsval \<Rightarrow> jsval \<Rightarrow> jsval \<Rightarrow> js_error + headers" where
  "getBoomiAuthHeaders accountId username password =
     (case template username of
        Inl error \<Rightarrow> Inl error
      | Inr user \<Rightarrow>
          (case template password of
             Inl error \<Rightarrow> Inl error
           | Inr pass \<Rightarrow>
               let auth = base64 (user @ '':'' @ pass)
               in Inr \<lparr>Authorization = ''Basic '' @ auth,
                       Accept = ''application/json'',
                       Content_Type = ''application/json''\<rparr>))"

definition getBoomiApiUrl :: "jsval \<Rightarrow> js_error + string" where
  "getBoomiApiUrl accountId =
     (case template accountId of
        Inl error \<Rightarrow> Inl error
      | Inr account \<Rightarrow> Inr (''https://api.boomi.com/api/rest/v1/'' @ account))"

definition upstream_target :: "jsval \<Rightarrow> jsval \<Rightarrow> jsval \<Rightarrow> js_error + headers \<times> string" where
  \<comment> \<open>the statements \<^verbatim>\<open>const headers = ...; const baseUrl = ...;\<close> of every handler\<close>
  "upstream_target accountId username password =
     (case getBoomiAuthHeaders accountId username password of
        Inl error \<Rightarrow> Inl error
      | Inr headers \<Rightarrow>
          (case getBoomiApiUrl accountId of
             Inl error \<Rightarrow> Inl error
           | Inr baseUrl \<Rightarrow> Inr (headers, baseUrl)))"

section \<open>Requests, replies and the catch blocks\<close>

text \<open>
  \<open>query\<close> is \<^verbatim>\<open>req.query\<close> and \<open>body\<close> is \<^verbatim>\<open>req.body\<close>, the object the JSON body
  parser leaves on the request (empty when no JSON body was sent). Route parameters
  (\<^verbatim>\<open>req.params\<close>) are strings bound by the router; they are arguments of the
  handlers. A reply is the call \<^verbatim>\<open>res.status(code).json(body)\<close> the handler makes;
  \<^verbatim>\<open>res.json(body)\<close> alone replies with 200. An outcome is the reply, \<open>None\<close> when the
  handler throws without having replied, together with the upstream calls issued, in
  the order they were issued.
\<close>

record request =
  query :: "(string \<times> json) list"
  body :: "(string \<times> json) list"

record http_reply =
  code :: nat
  json_body :: json

record outcome =
  reply :: "http_reply option"
  calls :: "up_request list"

definition missing_credentials :: http_reply where
  "missing_credentials =
     \<lparr>code = 400, json_body = JObj [(''error'', JStr ''Missing required authentication parameters'')]\<rparr>"

definition on_error :: "js_error \<Rightarrow> http_reply" where
  \<comment> \<open>the \<^verbatim>\<open>res.status(...).json(...)\<close> statement of every \<^verbatim>\<open>catch (error)\<close> block\<close>
  "on_error error =
     \<lparr>code = (case response error of
                None \<Rightarrow> 500
              | Some r \<Rightarrow> if status r \<noteq> 0 then status r else 500),
      json_body = JObj [(''error'',
                js_or_else (map_option data (response error)) (JStr (message error)))]\<rparr>"

text \<open>
  The catch blocks of the deployments, deployment type and processes handlers log a
  fixed text and reply with \<open>on_error\<close>. The catch blocks of the two toggle handlers
  start by logging \<^verbatim>\<open>`Error ${action}ing listener:`\<close> (or \<^verbatim>\<open>scheduler\<close>):
  \<^verbatim>\<open>action\<close> is declared by \<^verbatim>\<open>const\<close> inside the \<^verbatim>\<open>try\<close> block and is not in scope
  in the \<^verbatim>\<open>catch\<close> block, so the template literal throws a \<^verbatim>\<open>ReferenceError\<close>
  before \<^verbatim>\<open>res.status\<close> is reached, and the handler replies nothing.
\<close>

definition caught :: "js_error \<Rightarrow> http_reply option" where
  "caught error = Some (on_error error)"

definition caught_in_toggle :: "js_error \<Rightarrow> http_reply option" where
  "caught_in_toggle error = None"

definition match_all :: json where
  "match_all =
     JObj [(''QueryFilter'',
       JObj [(''expression'',
         JObj [(''operator'', JStr ''and''), (''nestedExpression'', JArr [])])])]"

section \<open>Promise.all\<close>

text \<open>
  A promise handed to \<^verbatim>\<open>Promise.all\<close> is given by the moment it settles and by how
  it settles. \<^verbatim>\<open>Promise.all\<close> rejects with the reason of the promise that rejects
  first (the earlier position winning among promises that reject at the same moment)
  and fulfils, when no promise rejects, with the values in the order of its argument.
\<close>

type_synonym 'a promise = "nat \<times> (js_error + 'a)"

fun first_rejection :: "'a promise list \<Rightarrow> (nat \<times> js_error) option" where
  "first_rejection [] = None"
| "first_rejection ((t, Inr v) # ps) = first_rejection ps"
| "first_rejection ((t, Inl e) # ps) =
     (case first_rejection ps of
        None \<Rightarrow> Some (t, e)
      | Some (t', e') \<Rightarrow> if t' < t then Some (t', e') else Some (t, e))"

fun fulfilled :: "'a promise list \<Rightarrow> 'a list" where
  "fulfilled [] = []"
| "fulfilled ((t, Inr v) # ps) = v # fulfilled ps"
| "fulfilled ((t, Inl e) # ps) = fulfilled ps"

definition promise_all :: "'a promise list \<Rightarrow> js_error + 'a list" where
  "promise_all ps =
     (case first_rejection ps of
        Some (t, e) \<Rightarrow> Inl e
      | None \<Rightarrow> Inr (fulfilled ps))"

section \<open>The handlers\<close>

subsection \<open>GET /api/deployments\<close>

text \<open>
  The function mapped over \<^verbatim>\<open>response.data\<close>. It runs up to its \<^verbatim>\<open>await\<close> at
  once: reading \<^verbatim>\<open>deployment.id\<close> of a \<^verbatim>\<open>null\<close> entry, or converting an id that
  cannot be converted to a string, rejects its promise there and then, with no call
  issued; otherwise the call is issued (call \<open>Suc i\<close> for the entry at index \<open>i\<close>,
  call \<open>0\<close> being the query) and the promise settles when the call does, later than
  any promise rejected at once.
\<close>

record fetch =
  issued :: "up_request option"
  settled :: "json promise"

definition detail_fetch :: "upstream \<Rightarrow> string \<Rightarrow> headers \<Rightarrow> nat \<times> json \<Rightarrow> fetch" where
  "detail_fetch up baseUrl headers = (\<lambda>(i, deployment).
     case prop_of deployment ''id'' of
       Inl error \<Rightarrow> \<lparr>issued = None, settled = (0, Inl error)\<rparr>
     | Inr deployment_id \<Rightarrow>
         (case template deployment_id of
            Inl error \<Rightarrow> \<lparr>issued = None, settled = (0, Inl error)\<rparr>
          | Inr id_text \<Rightarrow>
              let detailUrl = baseUrl @ ''/ProcessDeployment/'' @ id_text;
                  call = \<lparr>verb = GET, url = detailUrl, payload = None, hdrs = headers\<rparr>;
                  detailResponse = up (Suc i) call
              in \<lparr>issued = Some call,
                  settled = (Suc (fst detailResponse), snd detailResponse)\<rparr>))"

definition detail_fetches :: "upstream \<Rightarrow> string \<Rightarrow> headers \<Rightarrow> json list \<Rightarrow> fetch list" where
  "detail_fetches up baseUrl headers ds =
     map (detail_fetch up baseUrl headers) (zip [0..<length ds] ds)"

definition issued_calls :: "fetch list \<Rightarrow> up_request list" where
  "issued_calls fs = concat (map (\<lambda>f. case issued f of None \<Rightarrow> [] | Some c \<Rightarrow> [c]) fs)"

definition get_deployments :: "upstream \<Rightarrow> request \<Rightarrow> outcome" where
  "get_deployments up req =
     (let accountId = map_of (query req) ''accountId'';
          username = map_of (query req) ''username'';
          password = map_of (query req) ''password'';
          processId = map_of (query req) ''processId''
      in if js_not accountId \<or> js_not username \<or> js_not password
         then \<lparr>reply = Some missing_credentials, calls = []\<rparr>
         else
           case upstream_target accountId username password of
             Inl error \<Rightarrow> \<lparr>reply = caught error, calls = []\<rparr>
           | Inr (headers, baseUrl) \<Rightarrow>
               let queryData = (case processId of
                                  None \<Rightarrow> match_all
                                | Some p \<Rightarrow> if truthy p then JObj [(''processIds'', JArr [p])]
                                            else match_all);
                   call = \<lparr>verb = POST, url = baseUrl @ ''/ProcessDeployment/query'',
                           payload = Some queryData, hdrs = headers\<rparr>
               in case snd (up 0 call) of
                    Inl error \<Rightarrow> \<lparr>reply = caught error, calls = [call]\<rparr>
                  | Inr (JArr ds) \<Rightarrow>
                      let fetches = detail_fetches up baseUrl headers ds
                      in (case promise_all (map settled fetches) of
                            Inl error \<Rightarrow>
                              \<lparr>reply = caught error, calls = call # issued_calls fetches\<rparr>
                          | Inr deployments \<Rightarrow>
                              \<lparr>reply = Some \<lparr>code = 200, json_body = JArr deployments\<rparr>,
                               calls = call # issued_calls fetches\<rparr>)
                  | Inr JNull \<Rightarrow>
                      \<lparr>reply = caught (TypeError
                         (''Cannot read properties of null (reading '' @ [CHR 0x27] @ ''map'' @ [CHR 0x27] @ '')'')),
                       calls = [call]\<rparr>
                  | Inr other \<Rightarrow>
                      \<lparr>reply = caught (TypeError ''response.data.map is not a function''),
                       calls = [call]\<rparr>)"

subsection \<open>GET /api/deployment/:deploymentId/type\<close>

definition deployment_type :: "json \<Rightarrow> js_error + json" where
  \<comment> \<open>the object literal bound to \<^verbatim>\<open>type\<close>\<close>
  "deployment_type deployment =
     (case prop_of deployment ''listenerStatus'' of
        Inl error \<Rightarrow> Inl error
      | Inr listenerStatus \<Rightarrow>
          (case prop_of deployment ''scheduleStatus'' of
             Inl error \<Rightarrow> Inl error
           | Inr scheduleStatus \<Rightarrow>
               Inr (JObj
                 [(''isListener'', JBool (listenerStatus \<noteq> None)),
                  (''isScheduler'', JBool (scheduleStatus \<noteq> None)),
                  (''status'', js_or_else (js_or listenerStatus scheduleStatus) (JStr ''N/A'')),
                  (''deploymentDetails'', deployment)])))"

definition get_deployment_type :: "upstream \<Rightarrow> string \<Rightarrow> request \<Rightarrow> outcome" where
  "get_deployment_type up deploymentId req =
     (let accountId = map_of (query req) ''accountId'';
          username = map_of (query req) ''username'';
          password = map_of (query req) ''password''
      in if js_not accountId \<or> js_not username \<or> js_not password
         then \<lparr>reply = Some missing_credentials, calls = []\<rparr>
         else
           case upstream_target accountId username password of
             Inl error \<Rightarrow> \<lparr>reply = caught error, calls = []\<rparr>
           | Inr (headers, baseUrl) \<Rightarrow>
               let call = \<lparr>verb = GET, url = baseUrl @ ''/ProcessDeployment/'' @ deploymentId,
                           payload = None, hdrs = headers\<rparr>
               in case snd (up 0 call) of
                    Inl error \<Rightarrow> \<lparr>reply = caught error, calls = [call]\<rparr>
                  | Inr deployment \<Rightarrow>
                      (case deployment_type deployment of
                         Inl error \<Rightarrow> \<lparr>reply = caught error, calls = [call]\<rparr>
                       | Inr type \<Rightarrow>
                           \<lparr>reply = Some \<lparr>code = 200, json_body = type\<rparr>, calls = [call]\<rparr>))"

subsection \<open>POST /api/deployment/:deploymentId/listener/:action\<close>

definition post_listener :: "upstream \<Rightarrow> string \<Rightarrow> string \<Rightarrow> request \<Rightarrow> outcome" where
  "post_listener up deploymentId action req =
     (let accountId = map_of (body req) ''accountId'';
          username = map_of (body req) ''username'';
          password = map_of (body req) ''password''
      in if js_not accountId \<or> js_not username \<or> js_not password
         then \<lparr>reply = Some missing_credentials, calls = []\<rparr>
         else if action \<notin> set [''enable'', ''disable'']
         then \<lparr>reply = Some \<lparr>code = 400,
                  json_body = JObj [(''error'', JStr ''Action must be enable or disable'')]\<rparr>,
               calls = []\<rparr>
         else
           case upstream_target accountId username password of
             Inl error \<Rightarrow> \<lparr>reply = caught_in_toggle error, calls = []\<rparr>
           | Inr (headers, baseUrl) \<Rightarrow>
               let call = \<lparr>verb = POST,
                           url = baseUrl @ ''/ProcessDeployment/'' @ deploymentId
                                   @ ''/listener/'' @ action,
                           payload = Some (JObj []), hdrs = headers\<rparr>
               in case snd (up 0 call) of
                    Inl error \<Rightarrow> \<lparr>reply = caught_in_toggle error, calls = [call]\<rparr>
                  | Inr d \<Rightarrow>
                      \<lparr>reply = Some \<lparr>code = 200,
                         json_body = JObj
                           [(''success'', JBool True),
                            (''message'', JStr (''Listener '' @ action @ ''d successfully'')),
                            (''deploymentId'', JStr deploymentId),
                            (''response'', d)]\<rparr>,
                       calls = [call]\<rparr>)"

subsection \<open>POST /api/deployment/:deploymentId/scheduler/:action\<close>

definition post_scheduler :: "upstream \<Rightarrow> string \<Rightarrow> string \<Rightarrow> request \<Rightarrow> outcome" where
  "post_scheduler up deploymentId action req =
     (let accountId = map_of (body req) ''accountId'';
          username = map_of (body req) ''username'';
          password = map_of (body req) ''password''
      in if js_not accountId \<or> js_not username \<or> js_not password
         then \<lparr>reply = Some missing_credentials, calls = []\<rparr>
         else if action \<notin> set [''pause'', ''resume'']
         then \<lparr>reply = Some \<lparr>code = 400,
                  json_body = JObj [(''error'', JStr ''Action must be pause or resume'')]\<rparr>,
               calls = []\<rparr>
         else
           case upstream_target accountId username password of
             Inl error \<Rightarrow> \<lparr>reply = caught_in_toggle error, calls = []\<rparr>
           | Inr (headers, baseUrl) \<Rightarrow>
               let call = \<lparr>verb = POST,
                           url = baseUrl @ ''/ProcessDeployment/'' @ deploymentId
                                   @ ''/schedule/'' @ action,
                           payload = Some (JObj []), hdrs = headers\<rparr>
               in case snd (up 0 call) of
                    Inl error \<Rightarrow> \<lparr>reply = caught_in_toggle error, calls = [call]\<rparr>
                  | Inr d \<Rightarrow>
                      \<lparr>reply = Some \<lparr>code = 200,
                         json_body = JObj
                           [(''success'', JBool True),
                            (''message'', JStr (''Scheduler '' @ action @ ''d successfully'')),
                            (''deploymentId'', JStr deploymentId),
                            (''response'', d)]\<rparr>,
                       calls = [call]\<rparr>)"

subsection \<open>GET /api/processes\<close>

definition get_processes :: "upstream \<Rightarrow> request \<Rightarrow> outcome" where
  "get_processes up req =
     (let accountId = map_of (query req) ''accountId'';
          username = map_of (query req) ''username'';
          password = map_of (query req) ''password''
      in if js_not accountId \<or> js_not username \<or> js_not password
         then \<lparr>reply = Some missing_credentials, calls = []\<rparr>
         else
           case upstream_target accountId username password of
             Inl error \<Rightarrow> \<lparr>reply = caught error, calls = []\<rparr>
           | Inr (headers, baseUrl) \<Rightarrow>
               let call = \<lparr>verb = POST, url = baseUrl @ ''/Process/query'',
                           payload = Some match_all, hdrs = headers\<rparr>
               in case snd (up 0 call) of
                    Inl error \<Rightarrow> \<lparr>reply = caught error, calls = [call]\<rparr>
                  | Inr d \<Rightarrow> \<lparr>reply = Some \<lparr>code = 200, json_body = d\<rparr>, calls = [call]\<rparr>)"

subsection \<open>GET /health\<close>

text \<open>
  \<open>now\<close> is the reading \<^verbatim>\<open>new Date()\<close> takes of the clock, as \<^verbatim>\<open>res.json\<close>
  renders it (its ISO 8601 text).
\<close>

definition get_health :: "string \<Rightarrow> request \<Rightarrow> outcome" where
  "get_health now req =
     \<lparr>reply = Some \<lparr>code = 200,
        json_body = JObj [(''status'', JStr ''healthy''), (''timestamp'', JStr now)]\<rparr>,
      calls = []\<rparr>"

subsection \<open>The routes\<close>

datatype route =
    Deployments
  | DeploymentType string
  | Listener string string
  | Scheduler string string
  | Processes
  | Health

fun app :: "upstream \<Rightarrow> string \<Rightarrow> route \<Rightarrow> request \<Rightarrow> outcome" where
  "app up now Deployments req = get_deployments up req"
| "app up now (DeploymentType deploymentId) req = get_deployment_type up deploymentId req"
| "app up now (Listener deploymentId action) req = post_listener up deploymentId action req"
| "app up now (Scheduler deploymentId action) req = post_scheduler up deploymentId action req"
| "app up now Processes req = get_processes up req"
| "app up now Health req = get_health now req"

fun protected :: "route \<Rightarrow> bool" where
  "protected Health = False"
| "protected r = True"

fun credentials :: "route \<Rightarrow> request \<Rightarrow> (string \<times> json) list" where
  \<comment> \<open>where a route reads accountId, username and password from\<close>
  "credentials (Listener deploymentId action) req = body req"
| "credentials (Scheduler deploymentId action) req = body req"
| "credentials r req = query req"


section \<open>Notions the statements use\<close>

definition lacks_credentials :: "(string \<times> json) list \<Rightarrow> bool" where
  \<comment> \<open>the condition of the first \<^verbatim>\<open>if\<close> of every protected handler\<close>
  "lacks_credentials ps =
     (js_not (map_of ps ''accountId'') \<or> js_not (map_of ps ''username'') \<or>
      js_not (map_of ps ''password''))"

definition has_field :: "(string \<times> json) list \<Rightarrow> string \<Rightarrow> bool" where
  "has_field kvs k = (k \<in> fst ` set kvs)"


text \<open>
  The status of a deployment record as the specification words it: the value of
  \<^verbatim>\<open>listenerStatus\<close> if the record has that field, else the value of
  \<^verbatim>\<open>scheduleStatus\<close> if the record has that field, else \<^verbatim>\<open>"N/A"\<close>.
\<close>

definition spec_status_by_presence :: "(string \<times> json) list \<Rightarrow> json" where
  "spec_status_by_presence kvs =
     (case map_of kvs ''listenerStatus'' of
        Some v \<Rightarrow> v
      | None \<Rightarrow> (case map_of kvs ''scheduleStatus'' of Some w \<Rightarrow> w | None \<Rightarrow> JStr ''N/A''))"


section \<open>Facts about the values and the handlers\<close>

lemma has_field_map_of: "has_field kvs k \<longleftrightarrow> map_of kvs k \<noteq> None"
  by (simp add: has_field_def map_of_eq_None_iff)

lemma absent_lacks_credentials:
  assumes "\<not> has_field ps ''accountId'' \<or> \<not> has_field ps ''username'' \<or> \<not> has_field ps ''password''"
  shows "lacks_credentials ps"
  using assms by (auto simp add: lacks_credentials_def js_not_def has_field_map_of)

lemma empty_lacks_credentials:
  assumes "k \<in> {''accountId'', ''username'', ''password''}" and "map_of ps k = Some (JStr [])"
  shows "lacks_credentials ps"
  using assms by (auto simp add: lacks_credentials_def js_not_def)

lemma status_chain:
  "js_or_else (js_or a b) d =
     (let second = (case b of Some w \<Rightarrow> if truthy w then w else d | None \<Rightarrow> d)
      in case a of Some v \<Rightarrow> if truthy v then v else second | None \<Rightarrow> second)"
  by (simp add: js_or_def js_or_else_def js_not_def Let_def split: option.splits)




lemma deployment_type_record:
  "deployment_type (JObj kvs) =
     Inr (JObj
       [(''isListener'', JBool (has_field kvs ''listenerStatus'')),
        (''isScheduler'', JBool (has_field kvs ''scheduleStatus'')),
        (''status'',
           js_or_else (js_or (map_of kvs ''listenerStatus'') (map_of kvs ''scheduleStatus''))
             (JStr ''N/A'')),
        (''deploymentDetails'', JObj kvs)])"
  by (simp add: deployment_type_def has_field_map_of)

lemma upstream_target_strings:
  "upstream_target (Some (JStr a)) (Some (JStr u)) (Some (JStr p)) =
     Inr (\<lparr>Authorization = ''Basic '' @ base64 (u @ '':'' @ p),
           Accept = ''application/json'',
           Content_Type = ''application/json''\<rparr>,
          ''https://api.boomi.com/api/rest/v1/'' @ a)"
  by (simp add: upstream_target_def getBoomiAuthHeaders_def getBoomiApiUrl_def template_def)

lemma get_deployment_type_calls:
  assumes "\<not> lacks_credentials (query req)"
    and "upstream_target (map_of (query req) ''accountId'') (map_of (query req) ''username'')
           (map_of (query req) ''password'') = Inr (headers, baseUrl)"
  shows "calls (get_deployment_type up deploymentId req) =
     [\<lparr>verb = GET, url = baseUrl @ ''/ProcessDeployment/'' @ deploymentId,
       payload = None, hdrs = headers\<rparr>]"
  using assms
  by (simp add: get_deployment_type_def lacks_credentials_def Let_def split: sum.splits)

lemma get_deployment_type_fulfilled:
  assumes "calls (get_deployment_type up deploymentId req) = [c]"
    and "snd (up 0 c) = Inr d"
  shows "reply (get_deployment_type up deploymentId req) =
     (case deployment_type d of
        Inl error \<Rightarrow> Some (on_error error)
      | Inr type \<Rightarrow> Some \<lparr>code = 200, json_body = type\<rparr>)"
  using assms
  by (auto simp add: get_deployment_type_def Let_def caught_def
        split: if_splits sum.splits prod.splits)

lemma app_lacks_credentials:
  assumes "protected route" and "lacks_credentials (credentials route req)"
  shows "app up now route req = \<lparr>reply = Some missing_credentials, calls = []\<rparr>"
  using assms
  by (cases route)
     (simp_all add: get_deployments_def get_deployment_type_def post_listener_def
        post_scheduler_def get_processes_def lacks_credentials_def Let_def)

section \<open>The deployment type view\<close>

text \<open>
  Claim C1, as stated: the \<^verbatim>\<open>status\<close> of the view is the record's
  \<^verbatim>\<open>listenerStatus\<close> if the record has that field, else its \<^verbatim>\<open>scheduleStatus\<close> if
  it has that field, else \<^verbatim>\<open>"N/A"\<close>, selected by presence. The handler selects with
  \<^verbatim>\<open>||\<close>: a record with \<^verbatim>\<open>listenerStatus: ""\<close> and \<^verbatim>\<open>scheduleStatus: "PAUSED"\<close>
  has the field \<^verbatim>\<open>listenerStatus\<close>, yet the status of its view is \<^verbatim>\<open>"PAUSED"\<close> and
  not \<^verbatim>\<open>""\<close>.
\<close>

theorem deployment_type_status_by_presence_counterexample:
  "reply (get_deployment_type
            (\<lambda>n c. (0, Inr (JObj [(''listenerStatus'', JStr []), (''scheduleStatus'', JStr ''PAUSED'')])))
            ''d1''
            \<lparr>query = [(''accountId'', JStr ''acct''), (''username'', JStr ''u''),
                      (''password'', JStr ''p'')],
             body = []\<rparr>)
     = Some \<lparr>code = 200,
        json_body = JObj
          [(''isListener'', JBool True),
           (''isScheduler'', JBool True),
           (''status'', JStr ''PAUSED''),
           (''deploymentDetails'',
              JObj [(''listenerStatus'', JStr []), (''scheduleStatus'', JStr ''PAUSED'')])]\<rparr>
   \<and> spec_status_by_presence [(''listenerStatus'', JStr []), (''scheduleStatus'', JStr ''PAUSED'')]
       = JStr []
   \<and> JStr ''PAUSED''
       \<noteq> spec_status_by_presence [(''listenerStatus'', JStr []), (''scheduleStatus'', JStr ''PAUSED'')]"
  by (simp add: get_deployment_type_def js_not_def Let_def deployment_type_def
        js_or_def js_or_else_def spec_status_by_presence_def upstream_target_strings)

text \<open>
  Claim C1, amended: for every upstream deployment record, the \<^verbatim>\<open>status\<close> of the view
  is the record's \<^verbatim>\<open>listenerStatus\<close> if that field is present with a truthy value, else
  the record's \<^verbatim>\<open>scheduleStatus\<close> if that field is present with a truthy value, else
  \<^verbatim>\<open>"N/A"\<close>: the selection is by truthiness of the value.
\<close>

theorem deployment_type_status_by_truthiness:
  assumes "\<not> lacks_credentials (query req)"
    and "calls (get_deployment_type up deploymentId req) = [c]"
    and "snd (up 0 c) = Inr (JObj kvs)"
  shows "\<exists>isListener isScheduler.
     reply (get_deployment_type up deploymentId req) =
       Some \<lparr>code = 200,
        json_body = JObj
          [(''isListener'', isListener),
           (''isScheduler'', isScheduler),
           (''status'',
              (let second = (case map_of kvs ''scheduleStatus'' of
                               Some w \<Rightarrow> if truthy w then w else JStr ''N/A''
                             | None \<Rightarrow> JStr ''N/A'')
               in case map_of kvs ''listenerStatus'' of
                    Some v \<Rightarrow> if truthy v then v else second
                  | None \<Rightarrow> second)),
           (''deploymentDetails'', JObj kvs)]\<rparr>"
  using get_deployment_type_fulfilled [OF assms(2,3)]
  by (simp add: deployment_type_record status_chain)

theorem deployment_type_status_by_truthiness_witness:
  "\<not> lacks_credentials
       (query \<lparr>query = [(''accountId'', JStr ''acct''), (''username'', JStr ''u''),
                        (''password'', JStr ''p'')],
               body = []\<rparr>)
   \<and> (\<exists>c. calls (get_deployment_type
                    (\<lambda>n c. (0, Inr (JObj [(''listenerStatus'', JNull), (''scheduleStatus'', JStr ''PAUSED'')])))
                    ''d1''
                    \<lparr>query = [(''accountId'', JStr ''acct''), (''username'', JStr ''u''),
                              (''password'', JStr ''p'')],
                     body = []\<rparr>) = [c])
   \<and> (\<exists>isListener isScheduler.
        reply (get_deployment_type
                 (\<lambda>n c. (0, Inr (JObj [(''listenerStatus'', JNull), (''scheduleStatus'', JStr ''PAUSED'')])))
                 ''d1''
                 \<lparr>query = [(''accountId'', JStr ''acct''), (''username'', JStr ''u''),
                           (''password'', JStr ''p'')],
                  body = []\<rparr>)
        = Some \<lparr>code = 200,
           json_body = JObj
             [(''isListener'', isListener),
              (''isScheduler'', isScheduler),
              (''status'', JStr ''PAUSED''),
              (''deploymentDetails'',
                 JObj [(''listenerStatus'', JNull), (''scheduleStatus'', JStr ''PAUSED'')])]\<rparr>)"
proof -
  let ?req = "\<lparr>query = [(''accountId'', JStr ''acct''), (''username'', JStr ''u''),
                        (''password'', JStr ''p'')],
               body = []\<rparr>"
  let ?kvs = "[(''listenerStatus'', JNull), (''scheduleStatus'', JStr ''PAUSED'')]"
  let ?up = "(\<lambda>n c. (0, Inr (JObj ?kvs))) :: upstream"
  have creds: "\<not> lacks_credentials (query ?req)"
    by (simp add: lacks_credentials_def js_not_def)
  obtain c where c: "calls (get_deployment_type ?up ''d1'' ?req) = [c]"
    using get_deployment_type_calls [OF creds] by (simp add: upstream_target_strings)
  have up: "snd (?up 0 c) = Inr (JObj ?kvs)"
    by simp
  from deployment_type_status_by_truthiness [OF creds c up] creds c
  show ?thesis by simp
qed

text \<open>
  Claim C2: for every upstream deployment record, \<^verbatim>\<open>isListener\<close> is true exactly when
  the record has a \<^verbatim>\<open>listenerStatus\<close> field, whatever its value, and \<^verbatim>\<open>isScheduler\<close>
  is true exactly when the record has a \<^verbatim>\<open>scheduleStatus\<close> field.
\<close>

theorem deployment_type_flags_by_presence:
  assumes "\<not> lacks_credentials (query req)"
    and "calls (get_deployment_type up deploymentId req) = [c]"
    and "snd (up 0 c) = Inr (JObj kvs)"
  shows "\<exists>st. reply (get_deployment_type up deploymentId req) =
     Some \<lparr>code = 200,
      json_body = JObj
        [(''isListener'', JBool (has_field kvs ''listenerStatus'')),
         (''isScheduler'', JBool (has_field kvs ''scheduleStatus'')),
         (''status'', st),
         (''deploymentDetails'', JObj kvs)]\<rparr>"
  using get_deployment_type_fulfilled [OF assms(2,3)] by (simp add: deployment_type_record)

theorem deployment_type_flags_by_presence_witness:
  "\<not> lacks_credentials
       (query \<lparr>query = [(''accountId'', JStr ''acct''), (''username'', JStr ''u''),
                        (''password'', JStr ''p'')],
               body = []\<rparr>)
   \<and> (\<exists>c. calls (get_deployment_type (\<lambda>n c. (0, Inr (JObj [(''listenerStatus'', JStr [])])))
                    ''d1''
                    \<lparr>query = [(''accountId'', JStr ''acct''), (''username'', JStr ''u''),
                              (''password'', JStr ''p'')],
                     body = []\<rparr>) = [c])
   \<and> (\<exists>st.
        reply (get_deployment_type (\<lambda>n c. (0, Inr (JObj [(''listenerStatus'', JStr [])])))
                 ''d1''
                 \<lparr>query = [(''accountId'', JStr ''acct''), (''username'', JStr ''u''),
                           (''password'', JStr ''p'')],
                  body = []\<rparr>)
        = Some \<lparr>code = 200,
           json_body = JObj
             [(''isListener'', JBool True),
              (''isScheduler'', JBool False),
              (''status'', st),
              (''deploymentDetails'', JObj [(''listenerStatus'', JStr [])])]\<rparr>)"
proof -
  let ?req = "\<lparr>query = [(''accountId'', JStr ''acct''), (''username'', JStr ''u''),
                        (''password'', JStr ''p'')],
               body = []\<rparr>"
  let ?kvs = "[(''listenerStatus'', JStr [])]"
  let ?up = "(\<lambda>n c. (0, Inr (JObj ?kvs))) :: upstream"
  have creds: "\<not> lacks_credentials (query ?req)"
    by (simp add: lacks_credentials_def js_not_def)
  obtain c where c: "calls (get_deployment_type ?up ''d1'' ?req) = [c]"
    using get_deployment_type_calls [OF creds] by (simp add: upstream_target_strings)
  have up: "snd (?up 0 c) = Inr (JObj ?kvs)"
    by simp
  from deployment_type_flags_by_presence [OF creds c up] creds c
  show ?thesis by (simp add: has_field_def)
qed

section \<open>Validation of the request\<close>

text \<open>
  Claim C6: on every protected route (list deployments, get deployment type, listener
  toggle, scheduler toggle, list processes), a request in which any of
  \<^verbatim>\<open>accountId\<close>, \<^verbatim>\<open>username\<close>, \<^verbatim>\<open>password\<close> is missing is answered with HTTP 400
  and the missing-credentials error body, and no upstream call is made.
\<close>

theorem missing_credentials_rejected:
  assumes "protected route"
    and "\<not> has_field (credentials route req) ''accountId''
         \<or> \<not> has_field (credentials route req) ''username''
         \<or> \<not> has_field (credentials route req) ''password''"
  shows "app up now route req =
     \<lparr>reply = Some \<lparr>code = 400,
        json_body = JObj [(''error'', JStr ''Missing required authentication parameters'')]\<rparr>,
      calls = []\<rparr>"
  using app_lacks_credentials [OF assms(1) absent_lacks_credentials [OF assms(2)]]
  by (simp add: missing_credentials_def)

theorem missing_credentials_rejected_witness:
  "protected (Listener ''d1'' ''enable'')
   \<and> \<not> has_field
         (credentials (Listener ''d1'' ''enable'')
            \<lparr>query = [], body = [(''accountId'', JStr ''acct''), (''username'', JStr ''u'')]\<rparr>)
         ''password''
   \<and> app (\<lambda>n c. (0, Inr JNull)) ''2026-01-01T00:00:00.000Z'' (Listener ''d1'' ''enable'')
         \<lparr>query = [], body = [(''accountId'', JStr ''acct''), (''username'', JStr ''u'')]\<rparr>
       = \<lparr>reply = Some \<lparr>code = 400,
            json_body = JObj [(''error'', JStr ''Missing required authentication parameters'')]\<rparr>,
          calls = []\<rparr>
   \<and> protected Deployments
   \<and> \<not> has_field
         (credentials Deployments
            \<lparr>query = [(''username'', JStr ''u''), (''password'', JStr ''p'')], body = []\<rparr>)
         ''accountId''
   \<and> app (\<lambda>n c. (0, Inr JNull)) ''2026-01-01T00:00:00.000Z'' Deployments
         \<lparr>query = [(''username'', JStr ''u''), (''password'', JStr ''p'')], body = []\<rparr>
       = \<lparr>reply = Some \<lparr>code = 400,
            json_body = JObj [(''error'', JStr ''Missing required authentication parameters'')]\<rparr>,
          calls = []\<rparr>"
proof -
  let ?r1 = "\<lparr>query = [], body = [(''accountId'', JStr ''acct''), (''username'', JStr ''u'')]\<rparr>"
  let ?r2 = "\<lparr>query = [(''username'', JStr ''u''), (''password'', JStr ''p'')], body = []\<rparr>"
  have p1: "protected (Listener ''d1'' ''enable'')" and p2: "protected Deployments"
    by simp_all
  have a1: "\<not> has_field (credentials (Listener ''d1'' ''enable'') ?r1) ''password''"
    by (simp add: has_field_def)
  have a2: "\<not> has_field (credentials Deployments ?r2) ''accountId''"
    by (simp add: has_field_def)
  from a1 have h1: "\<not> has_field (credentials (Listener ''d1'' ''enable'') ?r1) ''accountId''
      \<or> \<not> has_field (credentials (Listener ''d1'' ''enable'') ?r1) ''username''
      \<or> \<not> has_field (credentials (Listener ''d1'' ''enable'') ?r1) ''password''"
    by blast
  from a2 have h2: "\<not> has_field (credentials Deployments ?r2) ''accountId''
      \<or> \<not> has_field (credentials Deployments ?r2) ''username''
      \<or> \<not> has_field (credentials Deployments ?r2) ''password''"
    by blast
  note missing_credentials_rejected [OF p1 h1] missing_credentials_rejected [OF p2 h2]
  with p1 p2 a1 a2 show ?thesis by simp
qed

text \<open>
  Claim C9: on every protected route a credential supplied as the empty string is
  treated as an absent one: the reply is the 400 missing-credentials error and no
  upstream call is made.
\<close>

theorem empty_credential_rejected:
  assumes "protected route"
    and "k \<in> {''accountId'', ''username'', ''password''}"
    and "map_of (credentials route req) k = Some (JStr [])"
  shows "app up now route req =
     \<lparr>reply = Some \<lparr>code = 400,
        json_body = JObj [(''error'', JStr ''Missing required authentication parameters'')]\<rparr>,
      calls = []\<rparr>"
  using app_lacks_credentials [OF assms(1) empty_lacks_credentials [OF assms(2,3)]]
  by (simp add: missing_credentials_def)

theorem empty_credential_rejected_witness:
  "protected Processes
   \<and> ''username'' \<in> {''accountId'', ''username'', ''password''}
   \<and> map_of
        (credentials Processes
           \<lparr>query = [(''accountId'', JStr ''acct''), (''username'', JStr []),
                     (''password'', JStr ''p'')],
            body = []\<rparr>)
        ''username'' = Some (JStr [])
   \<and> app (\<lambda>n c. (0, Inr JNull)) ''2026-01-01T00:00:00.000Z'' Processes
         \<lparr>query = [(''accountId'', JStr ''acct''), (''username'', JStr []),
                   (''password'', JStr ''p'')],
          body = []\<rparr>
       = \<lparr>reply = Some \<lparr>code = 400,
            json_body = JObj [(''error'', JStr ''Missing required authentication parameters'')]\<rparr>,
          calls = []\<rparr>"
proof -
  let ?req = "\<lparr>query = [(''accountId'', JStr ''acct''), (''username'', JStr []),
                        (''password'', JStr ''p'')],
               body = []\<rparr>"
  have p: "protected Processes"
    by simp
  have k: "''username'' \<in> {''accountId'', ''username'', ''password''}"
    by simp
  have v: "map_of (credentials Processes ?req) ''username'' = Some (JStr [])"
    by simp
  from empty_credential_rejected [OF p k v] p k v show ?thesis by simp
qed

text \<open>
  Claim C10: in the listener and scheduler toggles the credentials are checked before
  the action: a request that both lacks a credential and carries an invalid action is
  answered with the 400 missing-credentials error, not with the 400 invalid-action
  error.
\<close>

theorem credentials_checked_before_action:
  assumes "lacks_credentials (body req)"
    and "action \<notin> {''enable'', ''disable''}"
    and "action' \<notin> {''pause'', ''resume''}"
  shows "post_listener up deploymentId action req =
           \<lparr>reply = Some \<lparr>code = 400,
              json_body = JObj [(''error'', JStr ''Missing required authentication parameters'')]\<rparr>,
            calls = []\<rparr>
       \<and> map_option json_body (reply (post_listener up deploymentId action req))
           \<noteq> Some (JObj [(''error'', JStr ''Action must be enable or disable'')])
       \<and> post_scheduler up deploymentId action' req =
           \<lparr>reply = Some \<lparr>code = 400,
              json_body = JObj [(''error'', JStr ''Missing required authentication parameters'')]\<rparr>,
            calls = []\<rparr>
       \<and> map_option json_body (reply (post_scheduler up deploymentId action' req))
           \<noteq> Some (JObj [(''error'', JStr ''Action must be pause or resume'')])"
  using assms(1)
  by (simp add: post_listener_def post_scheduler_def lacks_credentials_def Let_def
        missing_credentials_def)

theorem credentials_checked_before_action_witness:
  "lacks_credentials (body \<lparr>query = [], body = [(''accountId'', JStr ''acct'')]\<rparr>)
   \<and> ''start'' \<notin> {''enable'', ''disable''}
   \<and> ''stop'' \<notin> {''pause'', ''resume''}
   \<and> post_listener (\<lambda>n c. (0, Inr JNull)) ''d1'' ''start''
         \<lparr>query = [], body = [(''accountId'', JStr ''acct'')]\<rparr>
       = \<lparr>reply = Some \<lparr>code = 400,
            json_body = JObj [(''error'', JStr ''Missing required authentication parameters'')]\<rparr>,
          calls = []\<rparr>
   \<and> post_scheduler (\<lambda>n c. (0, Inr JNull)) ''d1'' ''stop''
         \<lparr>query = [], body = [(''accountId'', JStr ''acct'')]\<rparr>
       = \<lparr>reply = Some \<lparr>code = 400,
            json_body = JObj [(''error'', JStr ''Missing required authentication parameters'')]\<rparr>,
          calls = []\<rparr>"
proof -
  let ?req = "\<lparr>query = [], body = [(''accountId'', JStr ''acct'')]\<rparr>"
  have l: "lacks_credentials (body ?req)"
    by (simp add: lacks_credentials_def js_not_def)
  have a: "''start'' \<notin> {''enable'', ''disable''}" and b: "''stop'' \<notin> {''pause'', ''resume''}"
    by simp_all
  from credentials_checked_before_action [OF l a b] l a b show ?thesis by simp
qed


text \<open>
  Claim C7: the listener toggle answers every action other than the literals
  \<^verbatim>\<open>enable\<close> and \<^verbatim>\<open>disable\<close> with HTTP 400 and calls nothing upstream, the error
  being the invalid-action error when the request carries its credentials (the
  credentials are checked first); \<^verbatim>\<open>enable\<close> and \<^verbatim>\<open>disable\<close> are forwarded whenever
  the credentials convert to strings, the literal standing in the path of the one
  upstream call and in the message of the reply to a fulfilled call. The scheduler
  toggle does the same with \<^verbatim>\<open>pause\<close> and \<^verbatim>\<open>resume\<close>.
\<close>

theorem toggle_action_validation:
  "(action \<notin> {''enable'', ''disable''} \<longrightarrow>
        (\<exists>b. reply (post_listener up deploymentId action req) = Some \<lparr>code = 400, json_body = b\<rparr>)
      \<and> calls (post_listener up deploymentId action req) = []
      \<and> (\<not> lacks_credentials (body req) \<longrightarrow>
            reply (post_listener up deploymentId action req)
              = Some \<lparr>code = 400,
                  json_body = JObj [(''error'', JStr ''Action must be enable or disable'')]\<rparr>))
   \<and> (action \<in> {''enable'', ''disable''} \<and> \<not> lacks_credentials (body req)
        \<and> upstream_target (map_of (body req) ''accountId'') (map_of (body req) ''username'')
              (map_of (body req) ''password'') = Inr (headers, baseUrl) \<longrightarrow>
        (\<exists>c. calls (post_listener up deploymentId action req) = [c]
           \<and> c = \<lparr>verb = POST,
                  url = baseUrl @ ''/ProcessDeployment/'' @ deploymentId @ ''/listener/'' @ action,
                  payload = Some (JObj []),
                  hdrs = headers\<rparr>
           \<and> (\<forall>d. snd (up 0 c) = Inr d \<longrightarrow>
                reply (post_listener up deploymentId action req) =
                  Some \<lparr>code = 200,
                   json_body = JObj
                     [(''success'', JBool True),
                      (''message'', JStr (''Listener '' @ action @ ''d successfully'')),
                      (''deploymentId'', JStr deploymentId),
                      (''response'', d)]\<rparr>)))
   \<and> (action \<notin> {''pause'', ''resume''} \<longrightarrow>
        (\<exists>b. reply (post_scheduler up deploymentId action req) = Some \<lparr>code = 400, json_body = b\<rparr>)
      \<and> calls (post_scheduler up deploymentId action req) = []
      \<and> (\<not> lacks_credentials (body req) \<longrightarrow>
            reply (post_scheduler up deploymentId action req)
              = Some \<lparr>code = 400,
                  json_body = JObj [(''error'', JStr ''Action must be pause or resume'')]\<rparr>))
   \<and> (action \<in> {''pause'', ''resume''} \<and> \<not> lacks_credentials (body req)
        \<and> upstream_target (map_of (body req) ''accountId'') (map_of (body req) ''username'')
              (map_of (body req) ''password'') = Inr (headers, baseUrl) \<longrightarrow>
        (\<exists>c. calls (post_scheduler up deploymentId action req) = [c]
           \<and> c = \<lparr>verb = POST,
                  url = baseUrl @ ''/ProcessDeployment/'' @ deploymentId @ ''/schedule/'' @ action,
                  payload = Some (JObj []),
                  hdrs = headers\<rparr>
           \<and> (\<forall>d. snd (up 0 c) = Inr d \<longrightarrow>
                reply (post_scheduler up deploymentId action req) =
                  Some \<lparr>code = 200,
                   json_body = JObj
                     [(''success'', JBool True),
                      (''message'', JStr (''Scheduler '' @ action @ ''d successfully'')),
                      (''deploymentId'', JStr deploymentId),
                      (''response'', d)]\<rparr>)))"
proof -
  have listener_invalid: "action \<notin> {''enable'', ''disable''} \<longrightarrow>
        (\<exists>b. reply (post_listener up deploymentId action req) = Some \<lparr>code = 400, json_body = b\<rparr>)
      \<and> calls (post_listener up deploymentId action req) = []
      \<and> (\<not> lacks_credentials (body req) \<longrightarrow>
            reply (post_listener up deploymentId action req)
              = Some \<lparr>code = 400,
                  json_body = JObj [(''error'', JStr ''Action must be enable or disable'')]\<rparr>)"
    by (simp add: post_listener_def lacks_credentials_def Let_def missing_credentials_def)
  have scheduler_invalid: "action \<notin> {''pause'', ''resume''} \<longrightarrow>
        (\<exists>b. reply (post_scheduler up deploymentId action req) = Some \<lparr>code = 400, json_body = b\<rparr>)
      \<and> calls (post_scheduler up deploymentId action req) = []
      \<and> (\<not> lacks_credentials (body req) \<longrightarrow>
            reply (post_scheduler up deploymentId action req)
              = Some \<lparr>code = 400,
                  json_body = JObj [(''error'', JStr ''Action must be pause or resume'')]\<rparr>)"
    by (simp add: post_scheduler_def lacks_credentials_def Let_def missing_credentials_def)
  have listener_valid: "action \<in> {''enable'', ''disable''} \<and> \<not> lacks_credentials (body req)
        \<and> upstream_target (map_of (body req) ''accountId'') (map_of (body req) ''username'')
              (map_of (body req) ''password'') = Inr (headers, baseUrl) \<longrightarrow>
        (\<exists>c. calls (post_listener up deploymentId action req) = [c]
           \<and> c = \<lparr>verb = POST,
                  url = baseUrl @ ''/ProcessDeployment/'' @ deploymentId @ ''/listener/'' @ action,
                  payload = Some (JObj []),
                  hdrs = headers\<rparr>
           \<and> (\<forall>d. snd (up 0 c) = Inr d \<longrightarrow>
                reply (post_listener up deploymentId action req) =
                  Some \<lparr>code = 200,
                   json_body = JObj
                     [(''success'', JBool True),
                      (''message'', JStr (''Listener '' @ action @ ''d successfully'')),
                      (''deploymentId'', JStr deploymentId),
                      (''response'', d)]\<rparr>))"
    by (auto simp add: post_listener_def lacks_credentials_def Let_def split: sum.splits)
  have scheduler_valid: "action \<in> {''pause'', ''resume''} \<and> \<not> lacks_credentials (body req)
        \<and> upstream_target (map_of (body req) ''accountId'') (map_of (body req) ''username'')
              (map_of (body req) ''password'') = Inr (headers, baseUrl) \<longrightarrow>
        (\<exists>c. calls (post_scheduler up deploymentId action req) = [c]
           \<and> c = \<lparr>verb = POST,
                  url = baseUrl @ ''/ProcessDeployment/'' @ deploymentId @ ''/schedule/'' @ action,
                  payload = Some (JObj []),
                  hdrs = headers\<rparr>
           \<and> (\<forall>d. snd (up 0 c) = Inr d \<longrightarrow>
                reply (post_scheduler up deploymentId action req) =
                  Some \<lparr>code = 200,
                   json_body = JObj
                     [(''success'', JBool True),
                      (''message'', JStr (''Scheduler '' @ action @ ''d successfully'')),
                      (''deploymentId'', JStr deploymentId),
                      (''response'', d)]\<rparr>))"
    by (auto simp add: post_scheduler_def lacks_credentials_def Let_def split: sum.splits)
  from listener_invalid listener_valid scheduler_invalid scheduler_valid
  show ?thesis by blast
qed

theorem toggle_action_validation_witness:
  "\<not> lacks_credentials
       (body \<lparr>query = [],
              body = [(''accountId'', JStr ''acct''), (''username'', JStr ''u''),
                      (''password'', JStr ''p'')]\<rparr>)
   \<and> (\<exists>headers.
        upstream_target (Some (JStr ''acct'')) (Some (JStr ''u'')) (Some (JStr ''p''))
          = Inr (headers, ''https://api.boomi.com/api/rest/v1/acct''))
   \<and> reply (post_listener (\<lambda>n c. (0, Inr (JStr ''ok''))) ''d1'' ''start''
         \<lparr>query = [],
          body = [(''accountId'', JStr ''acct''), (''username'', JStr ''u''),
                  (''password'', JStr ''p'')]\<rparr>)
       = Some \<lparr>code = 400,
          json_body = JObj [(''error'', JStr ''Action must be enable or disable'')]\<rparr>
   \<and> calls (post_listener (\<lambda>n c. (0, Inr (JStr ''ok''))) ''d1'' ''start''
         \<lparr>query = [],
          body = [(''accountId'', JStr ''acct''), (''username'', JStr ''u''),
                  (''password'', JStr ''p'')]\<rparr>) = []
   \<and> map url (calls (post_listener (\<lambda>n c. (0, Inr (JStr ''ok''))) ''d1'' ''enable''
         \<lparr>query = [],
          body = [(''accountId'', JStr ''acct''), (''username'', JStr ''u''),
                  (''password'', JStr ''p'')]\<rparr>))
       = [''https://api.boomi.com/api/rest/v1/acct/ProcessDeployment/d1/listener/enable'']
   \<and> reply (post_listener (\<lambda>n c. (0, Inr (JStr ''ok''))) ''d1'' ''enable''
         \<lparr>query = [],
          body = [(''accountId'', JStr ''acct''), (''username'', JStr ''u''),
                  (''password'', JStr ''p'')]\<rparr>)
       = Some \<lparr>code = 200,
          json_body = JObj
            [(''success'', JBool True),
             (''message'', JStr ''Listener enabled successfully''),
             (''deploymentId'', JStr ''d1''),
             (''response'', JStr ''ok'')]\<rparr>
   \<and> reply (post_scheduler (\<lambda>n c. (0, Inr (JStr ''ok''))) ''d1'' ''enable''
         \<lparr>query = [],
          body = [(''accountId'', JStr ''acct''), (''username'', JStr ''u''),
                  (''password'', JStr ''p'')]\<rparr>)
       = Some \<lparr>code = 400,
          json_body = JObj [(''error'', JStr ''Action must be pause or resume'')]\<rparr>
   \<and> calls (post_scheduler (\<lambda>n c. (0, Inr (JStr ''ok''))) ''d1'' ''enable''
         \<lparr>query = [],
          body = [(''accountId'', JStr ''acct''), (''username'', JStr ''u''),
                  (''password'', JStr ''p'')]\<rparr>) = []
   \<and> map url (calls (post_scheduler (\<lambda>n c. (0, Inr (JStr ''ok''))) ''d1'' ''resume''
         \<lparr>query = [],
          body = [(''accountId'', JStr ''acct''), (''username'', JStr ''u''),
                  (''password'', JStr ''p'')]\<rparr>))
       = [''https://api.boomi.com/api/rest/v1/acct/ProcessDeployment/d1/schedule/resume'']
   \<and> reply (post_scheduler (\<lambda>n c. (0, Inr (JStr ''ok''))) ''d1'' ''resume''
         \<lparr>query = [],
          body = [(''accountId'', JStr ''acct''), (''username'', JStr ''u''),
                  (''password'', JStr ''p'')]\<rparr>)
       = Some \<lparr>code = 200,
          json_body = JObj
            [(''success'', JBool True),
             (''message'', JStr ''Scheduler resumed successfully''),
             (''deploymentId'', JStr ''d1''),
             (''response'', JStr ''ok'')]\<rparr>"
proof -
  let ?req = "\<lparr>query = [],
               body = [(''accountId'', JStr ''acct''), (''username'', JStr ''u''),
                       (''password'', JStr ''p'')]\<rparr>"
  let ?up = "(\<lambda>n c. (0, Inr (JStr ''ok''))) :: upstream"
  let ?h = "\<lparr>Authorization = ''Basic '' @ base64 (''u'' @ '':'' @ ''p''),
             Accept = ''application/json'',
             Content_Type = ''application/json''\<rparr>"
  let ?base = "''https://api.boomi.com/api/rest/v1/acct''"
  have creds: "\<not> lacks_credentials (body ?req)"
    by (simp add: lacks_credentials_def js_not_def)
  have target: "upstream_target (map_of (body ?req) ''accountId'') (map_of (body ?req) ''username'')
      (map_of (body ?req) ''password'') = Inr (?h, ?base)"
    using upstream_target_strings [of "''acct''" "''u''" "''p''"] by simp
  then have target': "\<exists>headers.
      upstream_target (Some (JStr ''acct'')) (Some (JStr ''u'')) (Some (JStr ''p''))
        = Inr (headers, ?base)"
    by simp
  note T = toggle_action_validation
  from T [of "''start''" ?up "''d1''" ?req ?h ?base] creds
  have s1: "reply (post_listener ?up ''d1'' ''start'' ?req)
          = Some \<lparr>code = 400,
              json_body = JObj [(''error'', JStr ''Action must be enable or disable'')]\<rparr>
      \<and> calls (post_listener ?up ''d1'' ''start'' ?req) = []"
    by simp
  from T [of "''enable''" ?up "''d1''" ?req ?h ?base] creds target
  have s2: "map url (calls (post_listener ?up ''d1'' ''enable'' ?req))
          = [''https://api.boomi.com/api/rest/v1/acct/ProcessDeployment/d1/listener/enable'']
      \<and> reply (post_listener ?up ''d1'' ''enable'' ?req) =
          Some \<lparr>code = 200,
           json_body = JObj
             [(''success'', JBool True),
              (''message'', JStr ''Listener enabled successfully''),
              (''deploymentId'', JStr ''d1''),
              (''response'', JStr ''ok'')]\<rparr>"
    by simp
  from T [of "''enable''" ?up "''d1''" ?req ?h ?base] creds
  have s3: "reply (post_scheduler ?up ''d1'' ''enable'' ?req)
          = Some \<lparr>code = 400,
              json_body = JObj [(''error'', JStr ''Action must be pause or resume'')]\<rparr>
      \<and> calls (post_scheduler ?up ''d1'' ''enable'' ?req) = []"
    by simp
  from T [of "''resume''" ?up "''d1''" ?req ?h ?base] creds target
  have s4: "map url (calls (post_scheduler ?up ''d1'' ''resume'' ?req))
          = [''https://api.boomi.com/api/rest/v1/acct/ProcessDeployment/d1/schedule/resume'']
      \<and> reply (post_scheduler ?up ''d1'' ''resume'' ?req) =
          Some \<lparr>code = 200,
           json_body = JObj
             [(''success'', JBool True),
              (''message'', JStr ''Scheduler resumed successfully''),
              (''deploymentId'', JStr ''d1''),
              (''response'', JStr ''ok'')]\<rparr>"
    by simp
  show ?thesis
    using creds target' s1 s2 s3 s4 by simp
qed

text \<open>
  The catch block of a toggle: when the upstream call of a toggle is rejected, the
  call has been issued and the handler replies nothing.
\<close>

lemma toggle_rejected_replies_nothing:
  assumes "calls (post_listener up deploymentId action req) = c # cs"
    and "snd (up 0 c) = Inl e"
  shows "reply (post_listener up deploymentId action req) = None"
  using assms
  by (auto simp add: post_listener_def Let_def caught_in_toggle_def
        split: if_splits sum.splits prod.splits)

lemma scheduler_toggle_rejected_replies_nothing:
  assumes "calls (post_scheduler up deploymentId action req) = c # cs"
    and "snd (up 0 c) = Inl e"
  shows "reply (post_scheduler up deploymentId action req) = None"
  using assms
  by (auto simp add: post_scheduler_def Let_def caught_in_toggle_def
        split: if_splits sum.splits prod.splits)

section \<open>The health check\<close>

text \<open>
  Claim C8: every request to the health check, whatever it carries, is answered with a
  body whose \<^verbatim>\<open>status\<close> is the literal \<^verbatim>\<open>healthy\<close> and whose \<^verbatim>\<open>timestamp\<close> is the
  reading of the clock taken while handling it.
\<close>

theorem health_check:
  "app up now Health req =
     \<lparr>reply = Some \<lparr>code = 200,
        json_body = JObj [(''status'', JStr ''healthy''), (''timestamp'', JStr now)]\<rparr>,
      calls = []\<rparr>"
  by (simp add: get_health_def)

section \<open>Listing the deployments\<close>

lemma first_rejection_None_iff:
  "first_rejection ps = None \<longleftrightarrow> (\<forall>p\<in>set ps. \<exists>v. snd p = Inr v)"
  by (induction ps rule: first_rejection.induct) (auto split: option.splits)


lemma first_rejection_earliest:
  "first_rejection ps = Some (t, e) \<Longrightarrow> (t', Inl e') \<in> set ps \<Longrightarrow> t \<le> t'"
proof (induction ps arbitrary: t e rule: first_rejection.induct)
  case 1
  then show ?case by simp
next
  case (2 s v ps)
  then show ?case by auto
next
  case (3 s x ps)
  show ?case
  proof (cases "first_rejection ps")
    case None
    with "3.prems" have "t = s" and "\<forall>p\<in>set ps. \<exists>v. snd p = Inr v"
      by (auto simp add: first_rejection_None_iff)
    with "3.prems"(2) show ?thesis by fastforce
  next
    case (Some r)
    obtain u y where r: "r = (u, y)" by (cases r)
    from "3.IH" [of u y] Some r
    have least: "(t', Inl e') \<in> set ps \<Longrightarrow> u \<le> t'" by simp
    from "3.prems"(1) Some r have "t = (if u < s then u else s)"
      by (auto split: if_splits)
    with least "3.prems"(2) show ?thesis by (auto split: if_splits)
  qed
qed

lemma fulfilled_nth:
  assumes "length vs = length ps"
    and "\<forall>i<length ps. \<exists>t. ps ! i = (t, Inr (vs ! i))"
  shows "first_rejection ps = None \<and> fulfilled ps = vs"
  using assms
proof (induction ps arbitrary: vs)
  case Nil
  then show ?case by simp
next
  case (Cons p ps)
  then obtain v vs' where vs: "vs = v # vs'"
    by (cases vs) auto
  from Cons.prems(2) have "\<exists>t. (p # ps) ! 0 = (t, Inr (vs ! 0))"
    by blast
  then obtain t where p: "p = (t, Inr v)"
    using vs by auto
  have "\<forall>i<length ps. \<exists>t. ps ! i = (t, Inr (vs' ! i))"
  proof (intro allI impI)
    fix i
    assume "i < length ps"
    then have "Suc i < length (p # ps)"
      by simp
    with Cons.prems(2) have "\<exists>t. (p # ps) ! Suc i = (t, Inr (vs ! Suc i))"
      by blast
    then show "\<exists>t. ps ! i = (t, Inr (vs' ! i))"
      using vs by simp
  qed
  with Cons.IH [of vs'] Cons.prems(1) vs
  have "first_rejection ps = None \<and> fulfilled ps = vs'"
    by simp
  then show ?case
    using p vs by simp
qed

lemma promise_all_fulfils:
  assumes "length vs = length ps"
    and "\<forall>i<length ps. \<exists>t. ps ! i = (t, Inr (vs ! i))"
  shows "promise_all ps = Inr vs"
  using fulfilled_nth [OF assms] by (simp add: promise_all_def)


lemma settled_detail_fetches:
  "map settled (detail_fetches up baseUrl headers ds) =
     map (\<lambda>i. settled (detail_fetch up baseUrl headers (i, ds ! i))) [0..<length ds]"
  by (rule nth_equalityI) (simp_all add: detail_fetches_def)






lemma detail_fetch_call:
  assumes "prop_of deployment ''id'' = Inr deployment_id"
    and "template deployment_id = Inr id_text"
  shows "settled (detail_fetch up baseUrl headers (i, deployment)) =
     (Suc (fst (up (Suc i)
        \<lparr>verb = GET, url = baseUrl @ ''/ProcessDeployment/'' @ id_text,
         payload = None, hdrs = headers\<rparr>)),
      snd (up (Suc i)
        \<lparr>verb = GET, url = baseUrl @ ''/ProcessDeployment/'' @ id_text,
         payload = None, hdrs = headers\<rparr>))"
  using assms by (simp add: detail_fetch_def Let_def)


lemma get_deployments_calls:
  assumes "\<not> lacks_credentials (query req)"
    and "upstream_target (map_of (query req) ''accountId'') (map_of (query req) ''username'')
           (map_of (query req) ''password'') = Inr (headers, baseUrl)"
  shows "\<exists>c cs. calls (get_deployments up req) = c # cs"
  using assms
  by (simp add: get_deployments_def lacks_credentials_def Let_def
        split: sum.splits json.splits)


lemma get_deployments_fulfilled:
  assumes "upstream_target (map_of (query req) ''accountId'') (map_of (query req) ''username'')
             (map_of (query req) ''password'') = Inr (headers, baseUrl)"
    and "calls (get_deployments up req) = c # cs"
    and "snd (up 0 c) = Inr (JArr ds)"
  shows "reply (get_deployments up req) =
     (case promise_all (map settled (detail_fetches up baseUrl headers ds)) of
        Inl error \<Rightarrow> Some (on_error error)
      | Inr deployments \<Rightarrow> Some \<lparr>code = 200, json_body = JArr deployments\<rparr>)"
  using assms
  by (auto simp add: get_deployments_def Let_def caught_def
        split: if_splits sum.splits json.splits)


text \<open>
  Claim C3: whatever sequence of summaries the query returns, when the id of every
  summary converts to a string and every detail fetch is fulfilled, the array returned
  is the detail records of the summaries' ids in the order of the summaries, at
  whatever moments the detail fetches complete.
\<close>

theorem list_deployments_keeps_query_order:
  assumes "upstream_target (map_of (query req) ''accountId'') (map_of (query req) ''username'')
             (map_of (query req) ''password'') = Inr (headers, baseUrl)"
    and "calls (get_deployments up req) = c # cs"
    and "snd (up 0 c) = Inr (JArr summaries)"
    and "length details = length summaries"
    and "\<forall>i<length summaries. \<exists>deployment_id id_text t.
           prop_of (summaries ! i) ''id'' = Inr deployment_id
           \<and> template deployment_id = Inr id_text
           \<and> up (Suc i)
                \<lparr>verb = GET,
                 url = baseUrl @ ''/ProcessDeployment/'' @ id_text,
                 payload = None,
                 hdrs = headers\<rparr>
               = (t, Inr (details ! i))"
  shows "reply (get_deployments up req) = Some \<lparr>code = 200, json_body = JArr details\<rparr>"
proof -
  let ?ps = "map settled (detail_fetches up baseUrl headers summaries)"
  have len: "length details = length ?ps"
    using assms(4) by (simp add: detail_fetches_def)
  have "\<forall>i<length ?ps. \<exists>t. ?ps ! i = (t, Inr (details ! i))"
  proof (intro allI impI)
    fix i
    assume "i < length ?ps"
    then have i: "i < length summaries"
      by (simp add: detail_fetches_def)
    with assms(5) obtain deployment_id id_text t where
      d: "prop_of (summaries ! i) ''id'' = Inr deployment_id"
         "template deployment_id = Inr id_text"
      and a: "up (Suc i)
         \<lparr>verb = GET, url = baseUrl @ ''/ProcessDeployment/'' @ id_text,
          payload = None, hdrs = headers\<rparr> = (t, Inr (details ! i))"
      by blast
    from detail_fetch_call [OF d, of up baseUrl headers i] a
    have "settled (detail_fetch up baseUrl headers (i, summaries ! i))
        = (Suc t, Inr (details ! i))"
      by simp
    with i show "\<exists>t. ?ps ! i = (t, Inr (details ! i))"
      by (simp add: settled_detail_fetches)
  qed
  with len have "promise_all ?ps = Inr details"
    by (rule promise_all_fulfils)
  with get_deployments_fulfilled [OF assms(1,2,3)] show ?thesis
    by simp
qed

theorem list_deployments_keeps_query_order_witness:
  "(\<exists>headers.
      upstream_target (Some (JStr ''acct'')) (Some (JStr ''u'')) (Some (JStr ''p''))
        = Inr (headers, ''https://api.boomi.com/api/rest/v1/acct''))
   \<and> (\<exists>c cs.
      calls (get_deployments
               (\<lambda>n c. if n = 0 then (0, Inr (JArr [JObj [(''id'', JStr ''A'')], JObj [(''id'', JStr ''B'')]]))
                      else if n = 1 then (9, Inr (JObj [(''id'', JStr ''A''), (''version'', JNum ''3'')]))
                      else (1, Inr (JObj [(''id'', JStr ''B''), (''version'', JNum ''7'')])))
               \<lparr>query = [(''accountId'', JStr ''acct''), (''username'', JStr ''u''),
                         (''password'', JStr ''p'')],
                body = []\<rparr>) = c # cs)
   \<and> length [JObj [(''id'', JStr ''A''), (''version'', JNum ''3'')],
              JObj [(''id'', JStr ''B''), (''version'', JNum ''7'')]]
       = length [JObj [(''id'', JStr ''A'')], JObj [(''id'', JStr ''B'')]]
   \<and> reply (get_deployments
               (\<lambda>n c. if n = 0 then (0, Inr (JArr [JObj [(''id'', JStr ''A'')], JObj [(''id'', JStr ''B'')]]))
                      else if n = 1 then (9, Inr (JObj [(''id'', JStr ''A''), (''version'', JNum ''3'')]))
                      else (1, Inr (JObj [(''id'', JStr ''B''), (''version'', JNum ''7'')])))
               \<lparr>query = [(''accountId'', JStr ''acct''), (''username'', JStr ''u''),
                         (''password'', JStr ''p'')],
                body = []\<rparr>)
       = Some \<lparr>code = 200,
          json_body = JArr [JObj [(''id'', JStr ''A''), (''version'', JNum ''3'')],
                            JObj [(''id'', JStr ''B''), (''version'', JNum ''7'')]]\<rparr>"
proof -
  let ?req = "\<lparr>query = [(''accountId'', JStr ''acct''), (''username'', JStr ''u''),
                        (''password'', JStr ''p'')],
               body = []\<rparr>"
  let ?summaries = "[JObj [(''id'', JStr ''A'')], JObj [(''id'', JStr ''B'')]]"
  let ?details = "[JObj [(''id'', JStr ''A''), (''version'', JNum ''3'')],
                   JObj [(''id'', JStr ''B''), (''version'', JNum ''7'')]]"
  let ?up = "(\<lambda>n c. if n = 0 then (0, Inr (JArr ?summaries))
                    else if n = 1 then (9, Inr (JObj [(''id'', JStr ''A''), (''version'', JNum ''3'')]))
                    else (1, Inr (JObj [(''id'', JStr ''B''), (''version'', JNum ''7'')]))) :: upstream"
  let ?h = "\<lparr>Authorization = ''Basic '' @ base64 (''u'' @ '':'' @ ''p''),
             Accept = ''application/json'',
             Content_Type = ''application/json''\<rparr>"
  let ?base = "''https://api.boomi.com/api/rest/v1/acct''"
  have creds: "\<not> lacks_credentials (query ?req)"
    by (simp add: lacks_credentials_def js_not_def)
  have target: "upstream_target (map_of (query ?req) ''accountId'') (map_of (query ?req) ''username'')
      (map_of (query ?req) ''password'') = Inr (?h, ?base)"
    using upstream_target_strings [of "''acct''" "''u''" "''p''"] by simp
  then have target': "\<exists>headers.
      upstream_target (Some (JStr ''acct'')) (Some (JStr ''u'')) (Some (JStr ''p''))
        = Inr (headers, ?base)"
    by simp
  from get_deployments_calls [OF creds target]
  obtain c cs where calls: "calls (get_deployments ?up ?req) = c # cs"
    by blast
  have summary: "snd (?up 0 c) = Inr (JArr ?summaries)"
    by simp
  have len: "length ?details = length ?summaries"
    by simp
  have fetches: "\<forall>i<length ?summaries. \<exists>deployment_id id_text t.
      prop_of (?summaries ! i) ''id'' = Inr deployment_id
      \<and> template deployment_id = Inr id_text
      \<and> ?up (Suc i)
           \<lparr>verb = GET,
            url = ?base @ ''/ProcessDeployment/'' @ id_text,
            payload = None,
            hdrs = ?h\<rparr>
          = (t, Inr (?details ! i))"
  proof (intro allI impI)
    fix i
    assume "i < length ?summaries"
    then have "i = 0 \<or> i = 1"
      by auto
    then show "\<exists>deployment_id id_text t.
      prop_of (?summaries ! i) ''id'' = Inr deployment_id
      \<and> template deployment_id = Inr id_text
      \<and> ?up (Suc i)
           \<lparr>verb = GET,
            url = ?base @ ''/ProcessDeployment/'' @ id_text,
            payload = None,
            hdrs = ?h\<rparr>
          = (t, Inr (?details ! i))"
      by (elim disjE) (simp_all add: template_def)
  qed
  from list_deployments_keeps_query_order [OF target calls summary len fetches] calls target'
  show ?thesis
    by simp
qed




section \<open>Upstream failures\<close>







end
